theory Spec2Isabelle
  imports Main
begin

section \<open>Class-based application commands: \<open>discord/ext/class_commands/commands.py\<close>\<close>

text \<open>
  The module turns the attributes of a class body into command parameters when the class is
  created (\<open>CommandMeta.__new__\<close>) and offers \<open>send\<close>/\<open>defer\<close> helpers that delegate to
  the interaction of the host library. Python values are a datatype, dictionaries are
  association lists in insertion order, an exception is the left summand of a sum type, and
  the host library's calls are parameters of the model.
\<close>

subsection \<open>Python values\<close>

datatype AppCommandType = chat_input | user | message

text \<open>
  Class objects the module refers to. \<open>Parameter_cls\<close> is \<open>inspect.Parameter\<close> (the base
  of \<open>ParameterData\<close>), \<open>empty_cls\<close> is \<open>inspect.Parameter.empty\<close>.
\<close>

datatype pytype =
    type_cls
  | object_cls
  | NoneType_cls
  | bool_cls
  | int_cls
  | str_cls
  | list_cls
  | dict_cls
  | FunctionType
  | classmethod
  | staticmethod
  | MissingSentinel_cls
  | Option_cls
  | Parameter_cls
  | ParameterData_cls
  | empty_cls
  | EnumValue_cls
  | external_cls

text \<open>
  \<open>MISSING\<close> is the sentinel \<open>discord.utils.MISSING\<close>; \<open>PyOption default name description
  autocomplete\<close> is an instance of \<open>Option\<close> with its four slots; \<open>PyParameterData name
  default annotation\<close> is an instance of \<open>ParameterData\<close>; \<open>PyFunction\<close>,
  \<open>PyClassmethod\<close> and \<open>PyStaticmethod\<close> are a \<open>def\<close> in a class body, bare or
  wrapped; \<open>PyExternal\<close> is an object of the host environment that the module only passes
  around (a module, a typing construct, an embed, a message).
\<close>

datatype pyval =
    MISSING
  | PyNone
  | PyBool bool
  | PyInt int
  | PyStr string
  | PyFunction string
  | PyClassmethod string
  | PyStaticmethod string
  | PyOption pyval pyval pyval bool
  | PyParameterData string pyval pyval
  | PyEnum AppCommandType
  | PyType pytype
  | PyList "pyval list"
  | PyDict "(string \<times> pyval) list"
  | PyExternal string

datatype error =
    NameError string
  | TypeError string
  | AttributeError string

type_synonym pydict = "(string \<times> pyval) list"

text \<open>\<open>type(v)\<close>.\<close>

fun type_of :: "pyval \<Rightarrow> pytype" where
  "type_of MISSING = MissingSentinel_cls"
| "type_of PyNone = NoneType_cls"
| "type_of (PyBool b) = bool_cls"
| "type_of (PyInt i) = int_cls"
| "type_of (PyStr s) = str_cls"
| "type_of (PyFunction f) = FunctionType"
| "type_of (PyClassmethod f) = classmethod"
| "type_of (PyStaticmethod f) = staticmethod"
| "type_of (PyOption d n desc ac) = Option_cls"
| "type_of (PyParameterData n d a) = ParameterData_cls"
| "type_of (PyEnum t) = EnumValue_cls"
| "type_of (PyType t) = type_cls"
| "type_of (PyList xs) = list_cls"
| "type_of (PyDict d) = dict_cls"
| "type_of (PyExternal n) = external_cls"

text \<open>The method resolution order of a class: the class, then its bases.\<close>

fun mro :: "pytype \<Rightarrow> pytype list" where
  "mro object_cls = [object_cls]"
| "mro bool_cls = [bool_cls, int_cls, object_cls]"
| "mro ParameterData_cls = [ParameterData_cls, Parameter_cls, object_cls]"
| "mro t = [t, object_cls]"

text \<open>\<open>isinstance(v, c)\<close>: the second argument must be a class.\<close>

fun isinstance :: "pyval \<Rightarrow> pyval \<Rightarrow> error + bool" where
  "isinstance v (PyType c) = Inr (c \<in> set (mro (type_of v)))"
| "isinstance v c = Inl (TypeError ''isinstance() arg 2 must be a type'')"

text \<open>
  Attribute access \<open>v.a\<close> on the two kinds of object that carry the attributes read by the
  metaclass; every other value has none of them.
\<close>

fun getattr :: "pyval \<Rightarrow> string \<Rightarrow> error + pyval" where
  "getattr (PyOption d n desc ac) a =
     (if a = ''default'' then Inr d
      else if a = ''name'' then Inr n
      else if a = ''description'' then Inr desc
      else if a = ''autocomplete'' then Inr (PyBool ac)
      else Inl (AttributeError a))"
| "getattr (PyParameterData n d ann) a =
     (if a = ''name'' then Inr (PyStr n)
      else if a = ''default'' then Inr d
      else if a = ''annotation'' then Inr ann
      else Inl (AttributeError a))"
| "getattr v a = Inl (AttributeError a)"

subsection \<open>Dictionaries\<close>

text \<open>\<open>d.get(k, dflt)\<close> on a dictionary.\<close>

definition dict_get :: "pydict \<Rightarrow> string \<Rightarrow> pyval \<Rightarrow> pyval" where
  "dict_get d k dflt = (case map_of d k of Some v \<Rightarrow> v | None \<Rightarrow> dflt)"

text \<open>\<open>d[k] = v\<close>: an existing key keeps its position, a new key goes to the end.\<close>

fun dict_setitem :: "pydict \<Rightarrow> string \<Rightarrow> pyval \<Rightarrow> pydict" where
  "dict_setitem [] k v = [(k, v)]"
| "dict_setitem ((k', v') # d) k v =
     (if k' = k then (k, v) # d else (k', v') # dict_setitem d k v)"

text \<open>\<open>x.get(k, dflt)\<close> on an arbitrary value: only a dictionary has the method.\<close>

fun py_get :: "pyval \<Rightarrow> string \<Rightarrow> pyval \<Rightarrow> error + pyval" where
  "py_get (PyDict d) k dflt = Inr (dict_get d k dflt)"
| "py_get x k dflt = Inl (AttributeError ''get'')"

text \<open>\<open>s.startswith(p)\<close>.\<close>

definition startswith :: "string \<Rightarrow> string \<Rightarrow> bool" where
  "startswith s p = (take (length p) s = p)"

subsection \<open>Name resolution\<close>

text \<open>
  The names bound at the top level of the module, in the order the module binds them: its
  imports (those under \<open>if TYPE_CHECKING:\<close> are not executed), \<open>__all__\<close>, \<open>CommandT\<close>,
  \<open>_empty\<close>, \<open>optionbase\<close> and the classes it defines (the namespace once the module
  is imported, which is what the class statement of a subclass sees). The module binds no
  name \<open>Parameter\<close>: \<open>inspect.Parameter\<close> is reachable only through \<open>inspect\<close>.
\<close>

definition module_globals :: pydict where
  "module_globals =
     [(''inspect'', PyExternal ''inspect''),
      (''traceback'', PyExternal ''traceback''),
      (''FunctionType'', PyType FunctionType),
      (''Optional'', PyExternal ''typing.Optional''),
      (''TypeVar'', PyExternal ''typing.TypeVar''),
      (''Dict'', PyExternal ''typing.Dict''),
      (''Any'', PyExternal ''typing.Any''),
      (''List'', PyExternal ''typing.List''),
      (''TYPE_CHECKING'', PyBool False),
      (''Union'', PyExternal ''typing.Union''),
      (''Sequence'', PyExternal ''typing.Sequence''),
      (''Generic'', PyExternal ''typing.Generic''),
      (''AppCommandType'', PyExternal ''discord.AppCommandType''),
      (''Interaction'', PyExternal ''discord.Interaction''),
      (''Member'', PyExternal ''discord.Member''),
      (''Message'', PyExternal ''discord.Message''),
      (''User'', PyExternal ''discord.User''),
      (''MISSING'', MISSING),
      (''__all__'', PyExternal ''__all__''),
      (''CommandT'', PyExternal ''CommandT''),
      (''_empty'', PyType empty_cls),
      (''optionbase'', PyType object_cls),
      (''Option'', PyType Option_cls),
      (''ParameterData'', PyType ParameterData_cls),
      (''CommandMeta'', PyExternal ''CommandMeta''),
      (''Command'', PyExternal ''Command''),
      (''SlashCommand'', PyExternal ''SlashCommand''),
      (''UserCommand'', PyExternal ''UserCommand''),
      (''MessageCommand'', PyExternal ''MessageCommand'')]"

text \<open>The built-in names that \<open>CommandMeta.__new__\<close> uses.\<close>

definition builtins :: pydict where
  "builtins =
     [(''type'', PyType type_cls),
      (''object'', PyType object_cls),
      (''classmethod'', PyType classmethod),
      (''staticmethod'', PyType staticmethod),
      (''isinstance'', PyExternal ''isinstance''),
      (''len'', PyExternal ''len''),
      (''super'', PyExternal ''super''),
      (''TypeError'', PyExternal ''TypeError'')]"

text \<open>
  A global name in a function body is looked up in the module's namespace, then in the
  built-ins; a name bound in neither raises \<open>NameError\<close>.
\<close>

definition lookup_name :: "string \<Rightarrow> error + pyval" where
  "lookup_name n =
     (case map_of module_globals n of
        Some v \<Rightarrow> Inr v
      | None \<Rightarrow> (case map_of builtins n of Some v \<Rightarrow> Inr v | None \<Rightarrow> Inl (NameError n)))"

subsection \<open>\<open>ParameterData\<close>\<close>

text \<open>
  \<open>ParameterData(name, default, annotation)\<close>: a positional-or-keyword
  \<open>inspect.Parameter\<close> whose default and annotation are \<open>inspect.Parameter.empty\<close> where
  \<open>MISSING\<close> was given.
\<close>

definition ParameterData :: "string \<Rightarrow> pyval \<Rightarrow> pyval \<Rightarrow> pyval" where
  "ParameterData name dflt annotation =
     PyParameterData name
       (if dflt \<noteq> MISSING then dflt else PyType empty_cls)
       (if annotation \<noteq> MISSING then annotation else PyType empty_cls)"

subsection \<open>\<open>CommandMeta.__new__\<close>\<close>

text \<open>The three locals that the loop fills: \<open>arguments\<close>, \<open>descriptions\<close>, \<open>renames\<close>.\<close>

record loop_state =
  arguments :: "pyval list"
  descriptions :: pydict
  renames :: pydict

text \<open>The guard of the \<open>continue\<close>: the attributes that are not parameters.\<close>

definition skipped :: "string \<Rightarrow> pyval \<Rightarrow> bool" where
  "skipped k v =
     (startswith k ''_'' \<or> k = ''interaction''
      \<or> type_of v \<in> {FunctionType, classmethod, staticmethod})"

text \<open>
  The three assignments of the \<open>if isinstance(v, Parameter)\<close> branch: each reads an
  attribute of \<open>v\<close>. The result is \<open>(name, default, description)\<close>.
\<close>

definition extract_option :: "pyval \<Rightarrow> error + (pyval \<times> pyval \<times> pyval)" where
  "extract_option v =
     (case getattr v ''default'' of
        Inl e \<Rightarrow> Inl e
      | Inr dflt \<Rightarrow>
          (case getattr v ''description'' of
             Inl e \<Rightarrow> Inl e
           | Inr description \<Rightarrow>
               (case getattr v ''name'' of
                  Inl e \<Rightarrow> Inl e
                | Inr name \<Rightarrow> Inr (name, dflt, description))))"

text \<open>
  The tail of the loop body: append the descriptor, then record the description and the
  rename that are not \<open>MISSING\<close>.
\<close>

definition record_parameter ::
  "string \<Rightarrow> pyval \<Rightarrow> pyval \<times> pyval \<times> pyval \<Rightarrow> loop_state \<Rightarrow> loop_state" where
  "record_parameter k annotation ndd st =
     (case ndd of (name, dflt, description) \<Rightarrow>
        \<lparr>arguments = arguments st @ [ParameterData k dflt annotation],
         descriptions =
           (if description \<noteq> MISSING then dict_setitem (descriptions st) k description
            else descriptions st),
         renames =
           (if name \<noteq> MISSING then dict_setitem (renames st) k name else renames st)\<rparr>)"

text \<open>
  The loop body for an attribute that is not skipped. The annotation is read first; then
  \<open>isinstance(v, Parameter)\<close> resolves the global name \<open>Parameter\<close>, and only then are
  the two branches and the tail reached.
\<close>

definition loop_body :: "pyval \<Rightarrow> string \<Rightarrow> pyval \<Rightarrow> loop_state \<Rightarrow> error + loop_state" where
  "loop_body annotations k v st =
     (case py_get annotations k (PyStr ''str'') of
        Inl e \<Rightarrow> Inl e
      | Inr annotation \<Rightarrow>
          (case lookup_name ''Parameter'' of
             Inl e \<Rightarrow> Inl e
           | Inr cls \<Rightarrow>
               (case isinstance v cls of
                  Inl e \<Rightarrow> Inl e
                | Inr True \<Rightarrow>
                    (case extract_option v of
                       Inl e \<Rightarrow> Inl e
                     | Inr ndd \<Rightarrow> Inr (record_parameter k annotation ndd st))
                | Inr False \<Rightarrow>
                    (if v \<noteq> MISSING
                     then Inr (record_parameter k annotation (MISSING, v, MISSING) st)
                     else Inr (record_parameter k annotation (MISSING, MISSING, MISSING) st)))))"

text \<open>
  \<open>for k, v in attrs.items()\<close>: the state at the end, with the exception that stopped the
  loop, if one did.
\<close>

fun loop :: "pyval \<Rightarrow> pydict \<Rightarrow> loop_state \<Rightarrow> error option \<times> loop_state" where
  "loop annotations [] st = (None, st)"
| "loop annotations ((k, v) # items) st =
     (if skipped k v then loop annotations items st
      else (case loop_body annotations k v st of
              Inl e \<Rightarrow> (Some e, st)
            | Inr st' \<Rightarrow> loop annotations items st'))"

text \<open>A class object: its name, the names of its bases and its namespace.\<close>

record pyclass =
  cls_name :: string
  cls_bases :: "string list"
  cls_dict :: pydict

text \<open>
  The operand of the arity check, \<open>type in {AppCommandType.user, AppCommandType.message}\<close>:
  the global name \<open>type\<close> sought among the two enumeration members.
\<close>

definition context_menu_guard :: "error + bool" where
  "context_menu_guard =
     (case lookup_name ''type'' of
        Inl e \<Rightarrow> Inl e
      | Inr t \<Rightarrow> Inr (t \<in> set [PyEnum user, PyEnum message]))"

text \<open>
  \<open>CommandMeta.__new__(cls, classname, bases, attrs)\<close>. The dictionary \<open>attrs\<close> is the
  caller's and is updated in place, so the model returns it beside the result; the list
  \<open>arguments\<close> is the very list stored under \<open>__discord_app_commands_params__\<close>, so the
  dictionary holds the descriptors appended so far at every exit. The closing call
  \<open>super().__new__(cls, classname, bases, attrs)\<close> is \<open>type.__new__\<close>, which builds the
  class from a copy of the namespace.
\<close>

definition CommandMeta_new ::
  "string \<Rightarrow> string list \<Rightarrow> pydict \<Rightarrow> (error + pyclass) \<times> pydict" where
  "CommandMeta_new classname bases attrs0 =
     (let attrs = dict_setitem attrs0 ''__discord_app_commands_params__'' (PyList []);
          annotations = dict_get attrs ''__annotations__'' (PyDict [])
      in case loop annotations attrs \<lparr>arguments = [], descriptions = [], renames = []\<rparr> of
           (Some e, st) \<Rightarrow>
             (Inl e,
              dict_setitem attrs ''__discord_app_commands_params__'' (PyList (arguments st)))
         | (None, st) \<Rightarrow>
             (let attrs1 =
                    dict_setitem attrs ''__discord_app_commands_params__''
                      (PyList (arguments st))
              in case context_menu_guard of
                   Inl e \<Rightarrow> (Inl e, attrs1)
                 | Inr g \<Rightarrow>
                     if g \<and> length (arguments st) > 1
                     then (Inl (TypeError ''Context menu commands must take exactly one argument''),
                           attrs1)
                     else
                       (let attrs2 =
                              (if renames st \<noteq> []
                               then dict_setitem attrs1 ''__discord_app_commands_param_rename__''
                                      (PyDict (renames st))
                               else attrs1);
                            attrs3 =
                              (if descriptions st \<noteq> []
                               then dict_setitem attrs2
                                      ''__discord_app_commands_param_description__''
                                      (PyDict (descriptions st))
                               else attrs2)
                        in (Inr \<lparr>cls_name = classname, cls_bases = bases, cls_dict = attrs3\<rparr>,
                            attrs3))))"

subsection \<open>The classes the module defines\<close>

text \<open>
  The namespaces of the four class statements of the module, as the class statement hands
  them to the metaclass: \<open>__module__\<close>, \<open>__qualname__\<close>, the annotation dictionary (the
  module has \<open>from __future__ import annotations\<close>, so annotations are strings), the
  docstring (its first line here) and the assignments and \<open>def\<close>s of the body in order.
\<close>

definition Command_body :: pydict where
  "Command_body =
     [(''__module__'', PyStr ''discord.ext.class_commands.commands''),
      (''__qualname__'', PyStr ''Command''),
      (''__annotations__'', PyDict [(''interaction'', PyStr ''Interaction'')]),
      (''__doc__'', PyStr ''Represents a class-based application command.''),
      (''callback'', PyFunction ''Command.callback''),
      (''on_error'', PyFunction ''Command.on_error''),
      (''send'', PyFunction ''Command.send''),
      (''defer'', PyFunction ''Command.defer'')]"

definition SlashCommand_body :: pydict where
  "SlashCommand_body =
     [(''__module__'', PyStr ''discord.ext.class_commands.commands''),
      (''__qualname__'', PyStr ''SlashCommand''),
      (''__doc__'', PyStr ''Represents a class-based slash command.''),
      (''__discord_app_commands_type__'', PyEnum chat_input),
      (''autocomplete'', PyFunction ''SlashCommand.autocomplete'')]"

definition UserCommand_body :: pydict where
  "UserCommand_body =
     [(''__module__'', PyStr ''discord.ext.class_commands.commands''),
      (''__qualname__'', PyStr ''UserCommand''),
      (''__annotations__'', PyDict [(''target'', PyStr ''Union[Member, User]'')]),
      (''__doc__'', PyStr ''Represents a class-based user command.''),
      (''__discord_app_commands_type__'', PyEnum user)]"

definition MessageCommand_body :: pydict where
  "MessageCommand_body =
     [(''__module__'', PyStr ''discord.ext.class_commands.commands''),
      (''__qualname__'', PyStr ''MessageCommand''),
      (''__annotations__'', PyDict [(''target'', PyStr ''Message'')]),
      (''__doc__'', PyStr ''Represents a class-based message command.''),
      (''__discord_app_commands_type__'', PyEnum message)]"

subsection \<open>Reading the metadata of a namespace\<close>

text \<open>
  The names of the descriptors in the list stored under
  \<open>__discord_app_commands_params__\<close>, and the dictionary stored under a key (empty when
  the key is absent).
\<close>

fun descriptor_names :: "pyval list \<Rightarrow> string list" where
  "descriptor_names [] = []"
| "descriptor_names (PyParameterData n d a # ps) = n # descriptor_names ps"
| "descriptor_names (p # ps) = descriptor_names ps"

definition parameter_names :: "pydict \<Rightarrow> string list" where
  "parameter_names ns =
     (case map_of ns ''__discord_app_commands_params__'' of
        Some (PyList ps) \<Rightarrow> descriptor_names ps
      | _ \<Rightarrow> [])"

definition dict_attr :: "pydict \<Rightarrow> string \<Rightarrow> pydict" where
  "dict_attr ns key = (case map_of ns key of Some (PyDict d) \<Rightarrow> d | _ \<Rightarrow> [])"

text \<open>
  The annotation dictionary of a namespace is the one the class statement builds: the key
  \<open>__annotations__\<close> is absent or bound to a dictionary.
\<close>

definition annotations_is_dict :: "pydict \<Rightarrow> bool" where
  "annotations_is_dict attrs =
     (case dict_get attrs ''__annotations__'' (PyDict []) of PyDict d \<Rightarrow> True | _ \<Rightarrow> False)"

subsection \<open>\<open>Command.send\<close>\<close>

text \<open>The arguments of \<open>send\<close>; \<open>send_defaults\<close> holds the defaults of the signature.\<close>

record send_args =
  content :: pyval
  tts :: pyval
  embed :: pyval
  embeds :: pyval
  "file" :: pyval
  files :: pyval
  nonce :: pyval
  allowed_mentions :: pyval
  view :: pyval
  suppress_embeds :: pyval
  ephemeral :: pyval

definition send_defaults :: send_args where
  "send_defaults =
     \<lparr>content = PyNone, tts = PyBool False, embed = PyNone, embeds = PyNone, file = PyNone,
      files = PyNone, nonce = PyNone, allowed_mentions = PyNone, view = PyNone,
      suppress_embeds = PyBool False, ephemeral = PyBool False\<rparr>"

text \<open>
  The interaction of the host library, over a state \<open>'w\<close> of the library and the platform:
  the two tests \<open>is_expired()\<close> and \<open>response.is_done()\<close>, and the four awaited calls
  \<open>channel.send\<close>, \<open>followup.send\<close>, \<open>response.send_message\<close> and
  \<open>original_message\<close>, each taking its keyword arguments and returning an exception
  \<open>'e\<close> or its result (a message \<open>'m\<close>) and the state it leaves.
\<close>

record ('w, 'e, 'm) Interaction =
  is_expired :: "'w \<Rightarrow> bool"
  response_is_done :: "'w \<Rightarrow> bool"
  channel_send :: "pydict \<Rightarrow> 'w \<Rightarrow> ('e + 'm) \<times> 'w"
  followup_send :: "pydict \<Rightarrow> 'w \<Rightarrow> ('e + 'm) \<times> 'w"
  response_send_message :: "pydict \<Rightarrow> 'w \<Rightarrow> ('e + unit) \<times> 'w"
  original_message :: "'w \<Rightarrow> ('e + 'm) \<times> 'w"

text \<open>\<open>MISSING if x is None else x\<close>.\<close>

definition none_to_missing :: "pyval \<Rightarrow> pyval" where
  "none_to_missing x = (if x = PyNone then MISSING else x)"

definition send :: "('w, 'e, 'm) Interaction \<Rightarrow> send_args \<Rightarrow> 'w \<Rightarrow> ('e + 'm) \<times> 'w" where
  "send interaction a w =
     (if is_expired interaction w
      then channel_send interaction
             [(''content'', content a),
              (''tts'', tts a),
              (''embed'', embed a),
              (''embeds'', embeds a),
              (''file'', file a),
              (''files'', files a),
              (''nonce'', nonce a),
              (''allowed_mentions'', allowed_mentions a),
              (''view'', view a),
              (''suppress_embeds'', suppress_embeds a)] w
      else
        (let kwargs =
               [(''content'', content a),
                (''tts'', tts a),
                (''embed'', none_to_missing (embed a)),
                (''embeds'', none_to_missing (embeds a)),
                (''file'', none_to_missing (file a)),
                (''files'', none_to_missing (files a)),
                (''allowed_mentions'', none_to_missing (allowed_mentions a)),
                (''view'', none_to_missing (view a)),
                (''suppress_embeds'', suppress_embeds a),
                (''ephemeral'', ephemeral a)]
         in if response_is_done interaction w
            then followup_send interaction (kwargs @ [(''wait'', PyBool True)]) w
            else (case response_send_message interaction kwargs w of
                    (Inl e, w') \<Rightarrow> (Inl e, w')
                  | (Inr u, w') \<Rightarrow> original_message interaction w')))"

text \<open>
  A host that records the calls it receives, for running \<open>send\<close>: the state holds the two
  flags and the calls so far, every call succeeds, and \<open>response.send_message\<close> marks the
  response as done.
\<close>

datatype host_call =
    Channel_send pydict
  | Followup_send pydict
  | Response_send_message pydict
  | Original_message

record host_state =
  expired :: bool
  responded :: bool
  calls :: "host_call list"

definition recording_host :: "(host_state, error, string) Interaction" where
  "recording_host =
     \<lparr>is_expired = expired,
      response_is_done = responded,
      channel_send = (\<lambda>kw w. (Inr ''channel message'', w\<lparr>calls := calls w @ [Channel_send kw]\<rparr>)),
      followup_send = (\<lambda>kw w. (Inr ''followup message'', w\<lparr>calls := calls w @ [Followup_send kw]\<rparr>)),
      response_send_message =
        (\<lambda>kw w. (Inr (), w\<lparr>responded := True, calls := calls w @ [Response_send_message kw]\<rparr>)),
      original_message = (\<lambda>w. (Inr ''original message'', w\<lparr>calls := calls w @ [Original_message]\<rparr>))\<rparr>"

section \<open>Properties\<close>

subsection \<open>Name resolution and the loop\<close>

lemma lookup_name_Parameter: "lookup_name ''Parameter'' = Inl (NameError ''Parameter'')"
  by (simp add: lookup_name_def module_globals_def builtins_def)

lemma lookup_name_type: "lookup_name ''type'' = Inr (PyType type_cls)"
  by (simp add: lookup_name_def module_globals_def builtins_def)

text \<open>
  The arity check compares the built-in \<open>type\<close> with the two enumeration members, so its
  first operand is false whatever the class being created is.
\<close>

lemma context_menu_guard_False: "context_menu_guard = Inr False"
  by (simp add: context_menu_guard_def lookup_name_type)

lemma loop_body_dict: "loop_body (PyDict d) k v st = Inl (NameError ''Parameter'')"
  by (simp add: loop_body_def lookup_name_Parameter)

lemma loop_body_fails: "loop_body ann k v st \<noteq> Inr st'"
  by (simp add: loop_body_def lookup_name_Parameter split: sum.splits)

lemma loop_state: "snd (loop ann items st) = st"
  by (induction items arbitrary: st) (auto simp: loop_body_fails split: sum.splits)

lemma loop_all_skipped:
  "\<forall>(k, v) \<in> set items. skipped k v \<Longrightarrow> loop ann items st = (None, st)"
  by (induction items arbitrary: st) auto

lemma loop_eligible:
  "(k, v) \<in> set items \<Longrightarrow> \<not> skipped k v \<Longrightarrow>
   loop (PyDict d) items st = (Some (NameError ''Parameter''), st)"
  by (induction items arbitrary: st) (auto simp: loop_body_dict)

lemma map_of_dict_setitem:
  "map_of (dict_setitem d k v) k' = (if k' = k then Some v else map_of d k')"
  by (induction d) auto

lemma dict_setitem_twice: "dict_setitem (dict_setitem d k v) k v' = dict_setitem d k v'"
  by (induction d) auto

lemma set_dict_setitem:
  "(k', v') \<in> set d \<Longrightarrow> k' \<noteq> k \<Longrightarrow> (k', v') \<in> set (dict_setitem d k v)"
  by (induction d) auto

text \<open>
  Whatever the outcome, the caller's dictionary is left with an empty list under
  \<open>__discord_app_commands_params__\<close> and is otherwise as it was.
\<close>

lemma CommandMeta_new_namespace:
  "snd (CommandMeta_new classname bases attrs) =
     dict_setitem attrs ''__discord_app_commands_params__'' (PyList [])"
proof -
  let ?attrs = "dict_setitem attrs ''__discord_app_commands_params__'' (PyList [])"
  let ?ann = "dict_get ?attrs ''__annotations__'' (PyDict [])"
  let ?init = "\<lparr>arguments = [], descriptions = [], renames = []\<rparr>"
  obtain e st where l: "loop ?ann ?attrs ?init = (e, st)"
    by (cases "loop ?ann ?attrs ?init")
  have st: "st = ?init"
    using loop_state [of ?ann ?attrs ?init] l by simp
  show ?thesis
    by (cases e)
      (simp_all add: CommandMeta_new_def Let_def l st dict_setitem_twice context_menu_guard_False)
qed

lemma not_skipped_key:
  "\<not> skipped k v \<Longrightarrow> k \<noteq> ''__discord_app_commands_params__''"
  by (auto simp: skipped_def startswith_def)

lemma parameter_names_empty:
  "parameter_names (dict_setitem attrs ''__discord_app_commands_params__'' (PyList [])) = []"
  by (simp add: parameter_names_def map_of_dict_setitem)

lemma dict_attr_setitem:
  "key \<noteq> ''__discord_app_commands_params__'' \<Longrightarrow>
   dict_attr (dict_setitem attrs ''__discord_app_commands_params__'' v) key = dict_attr attrs key"
  by (simp add: dict_attr_def map_of_dict_setitem)

lemma annotations_after_setitem:
  "dict_get (dict_setitem attrs ''__discord_app_commands_params__'' v) ''__annotations__'' dflt =
   dict_get attrs ''__annotations__'' dflt"
  by (simp add: dict_get_def map_of_dict_setitem)

text \<open>
  The only exceptions that leave the loop are the \<open>NameError\<close> of the unbound name and
  the \<open>AttributeError\<close> of an annotation object without \<open>get\<close>; so no input makes
  \<open>CommandMeta.__new__\<close> raise the \<open>TypeError\<close> of the arity check.
\<close>

lemma loop_body_error:
  "loop_body ann k v st = Inl e \<Longrightarrow> e = NameError ''Parameter'' \<or> e = AttributeError ''get''"
  by (cases ann) (auto simp: loop_body_def lookup_name_Parameter)

lemma loop_error:
  "fst (loop ann items st) = Some e \<Longrightarrow> e = NameError ''Parameter'' \<or> e = AttributeError ''get''"
proof (induction items arbitrary: st)
  case Nil
  then show ?case by simp
next
  case (Cons kv items)
  obtain k v where kv: "kv = (k, v)" by (cases kv)
  show ?case
  proof (cases "skipped k v")
    case True
    then show ?thesis using Cons by (simp add: kv)
  next
    case False
    obtain e' where e': "loop_body ann k v st = Inl e'"
      using loop_body_fails [of ann k v st] by (cases "loop_body ann k v st") auto
    then have "e = e'" using Cons.prems False by (simp add: kv)
    then show ?thesis using loop_body_error [OF e'] by simp
  qed
qed

lemma CommandMeta_new_never_arity_error:
  "fst (CommandMeta_new classname bases attrs) \<noteq>
     Inl (TypeError ''Context menu commands must take exactly one argument'')"
proof -
  let ?attrs = "dict_setitem attrs ''__discord_app_commands_params__'' (PyList [])"
  let ?ann = "dict_get ?attrs ''__annotations__'' (PyDict [])"
  let ?init = "\<lparr>arguments = [], descriptions = [], renames = []\<rparr>"
  obtain e st where l: "loop ?ann ?attrs ?init = (e, st)"
    by (cases "loop ?ann ?attrs ?init")
  show ?thesis
  proof (cases e)
    case None
    then show ?thesis
      by (simp add: CommandMeta_new_def Let_def l context_menu_guard_False)
  next
    case (Some x)
    then have "x = NameError ''Parameter'' \<or> x = AttributeError ''get''"
      using loop_error [of ?ann ?attrs ?init x] l by simp
    then show ?thesis
      using Some by (auto simp: CommandMeta_new_def Let_def l)
  qed
qed

lemma set_dict_setitem_cases:
  "(k', v') \<in> set (dict_setitem d k v) \<Longrightarrow> (k', v') \<in> set d \<or> (k' = k \<and> v' = v)"
  by (induction d) (auto split: if_splits)

text \<open>
  A class body without parameters is created: this is how the four classes of the module
  itself come into being.
\<close>

lemma CommandMeta_new_no_parameters:
  assumes "\<forall>(k, v) \<in> set attrs. skipped k v"
  shows "CommandMeta_new classname bases attrs =
           (Inr \<lparr>cls_name = classname, cls_bases = bases,
                 cls_dict = dict_setitem attrs ''__discord_app_commands_params__'' (PyList [])\<rparr>,
            dict_setitem attrs ''__discord_app_commands_params__'' (PyList []))"
proof -
  let ?attrs = "dict_setitem attrs ''__discord_app_commands_params__'' (PyList [])"
  have "skipped ''__discord_app_commands_params__'' (PyList [])"
    by (simp add: skipped_def startswith_def)
  then have "\<forall>(k, v) \<in> set ?attrs. skipped k v"
    using assms set_dict_setitem_cases [of _ _ attrs] by fastforce
  then have "loop ann ?attrs st = (None, st)" for ann st
    by (rule loop_all_skipped)
  then show ?thesis
    by (simp add: CommandMeta_new_def Let_def context_menu_guard_False dict_setitem_twice)
qed

lemma UserCommand_created:
  "CommandMeta_new ''UserCommand'' [''Command'', ''Generic''] UserCommand_body =
     (Inr \<lparr>cls_name = ''UserCommand'', cls_bases = [''Command'', ''Generic''],
          cls_dict = UserCommand_body @ [(''__discord_app_commands_params__'', PyList [])]\<rparr>,
      UserCommand_body @ [(''__discord_app_commands_params__'', PyList [])])"
  by (simp add: CommandMeta_new_def UserCommand_body_def Let_def dict_get_def skipped_def
      startswith_def context_menu_guard_False)

text \<open>
  What the two branches and the tail of the loop body compute once they are entered: an
  \<open>Option\<close> yields its name, default and description, and the tail appends the
  descriptor and records the rename and the description that are given.
\<close>

lemma extract_option_Option:
  "extract_option (PyOption d n desc ac) = Inr (n, d, desc)"
  by (simp add: extract_option_def)

lemma record_parameter_Option:
  assumes "d \<noteq> MISSING" and "n \<noteq> MISSING" and "desc \<noteq> MISSING"
  shows "record_parameter k annotation (n, d, desc)
           \<lparr>arguments = [], descriptions = [], renames = []\<rparr> =
         \<lparr>arguments = [PyParameterData k d
                          (if annotation \<noteq> MISSING then annotation else PyType empty_cls)],
          descriptions = [(k, desc)], renames = [(k, n)]\<rparr>"
  using assms by (simp add: record_parameter_def ParameterData_def)

lemma record_parameter_bare:
  assumes "v \<noteq> MISSING"
  shows "record_parameter k annotation (MISSING, v, MISSING)
           \<lparr>arguments = [], descriptions = [], renames = []\<rparr> =
         \<lparr>arguments = [PyParameterData k v
                          (if annotation \<noteq> MISSING then annotation else PyType empty_cls)],
          descriptions = [], renames = []\<rparr>"
  using assms by (simp add: record_parameter_def ParameterData_def)

section \<open>The claims\<close>

subsection \<open>Class construction\<close>

text \<open>
  C1. A user-command or message-command subclass that declares two or more eligible
  parameters is to be rejected with a \<open>TypeError\<close> when the class is defined, and one with
  no or one parameter is to be created. The code does otherwise: the user command
  \<open>class Ban(UserCommand): reason = 'spam'; days = 7\<close> fails with the \<open>NameError\<close> of
  the unbound name \<open>Parameter\<close>, not with the \<open>TypeError\<close>; the same class with the one
  parameter \<open>reason\<close> fails with that \<open>NameError\<close> too instead of being created; and the
  first operand of the arity check, which compares the built-in \<open>type\<close> with the two
  context-menu types, is false.
\<close>

theorem context_menu_two_parameters:
  "fst (CommandMeta_new ''Ban'' [''UserCommand'']
          [(''__module__'', PyStr ''__main__''),
           (''__qualname__'', PyStr ''Ban''),
           (''reason'', PyStr ''spam''),
           (''days'', PyInt 7)]) = Inl (NameError ''Parameter'')
   \<and> fst (CommandMeta_new ''Ban'' [''UserCommand'']
          [(''__module__'', PyStr ''__main__''),
           (''__qualname__'', PyStr ''Ban''),
           (''reason'', PyStr ''spam'')]) = Inl (NameError ''Parameter'')
   \<and> context_menu_guard = Inr False"
  by (simp add: CommandMeta_new_def Let_def dict_get_def skipped_def startswith_def
      loop_body_dict context_menu_guard_False)

text \<open>
  C2. An eligible attribute assigned \<open>Option(default=D, name=N, description=Desc)\<close> is to
  yield a descriptor with default \<open>D\<close>, the rename \<open>{attr: N}\<close> and the description
  \<open>{attr: Desc}\<close>. The code does otherwise:
  \<open>class Greet(SlashCommand): who = Option('world', 'target', 'Who to greet')\<close> raises
  \<open>NameError\<close>; no class is created and the parameter list handed back is empty.
\<close>

theorem option_attribute_not_extracted:
  "CommandMeta_new ''Greet'' [''SlashCommand'']
     [(''__module__'', PyStr ''__main__''),
      (''__qualname__'', PyStr ''Greet''),
      (''who'', PyOption (PyStr ''world'') (PyStr ''target'') (PyStr ''Who to greet'') False)] =
   (Inl (NameError ''Parameter''),
    [(''__module__'', PyStr ''__main__''),
     (''__qualname__'', PyStr ''Greet''),
     (''who'', PyOption (PyStr ''world'') (PyStr ''target'') (PyStr ''Who to greet'') False),
     (''__discord_app_commands_params__'', PyList [])])"
  by (simp add: CommandMeta_new_def Let_def dict_get_def skipped_def startswith_def
      loop_body_dict)

text \<open>
  C3. An eligible attribute assigned a bare value \<open>V\<close> that is not \<open>MISSING\<close> is to yield
  a descriptor with default \<open>V\<close> and no rename or description. The code does otherwise:
  \<open>class Roll(SlashCommand): sides = 6\<close> raises \<open>NameError\<close>; no class is created and
  the parameter list handed back is empty.
\<close>

theorem bare_default_not_recorded:
  "CommandMeta_new ''Roll'' [''SlashCommand'']
     [(''__module__'', PyStr ''__main__''),
      (''__qualname__'', PyStr ''Roll''),
      (''sides'', PyInt 6)] =
   (Inl (NameError ''Parameter''),
    [(''__module__'', PyStr ''__main__''),
     (''__qualname__'', PyStr ''Roll''),
     (''sides'', PyInt 6),
     (''__discord_app_commands_params__'', PyList [])])"
  by (simp add: CommandMeta_new_def Let_def dict_get_def skipped_def startswith_def
      loop_body_dict)

text \<open>
  C4. For every class body that assigns a value to at least one eligible attribute
  (not private-prefixed, not named \<open>interaction\<close>, not a function, classmethod or
  staticmethod) and whose \<open>__annotations__\<close> entry is absent or a dictionary, class
  construction raises \<open>NameError\<close> for the name \<open>Parameter\<close>, the caller's namespace is
  left with an empty parameter list, and the loop body never completes, so neither the
  \<open>Option\<close> branch nor the bare-default branch is ever followed by a recorded
  descriptor.
\<close>

theorem eligible_attribute_raises_NameError:
  assumes "(k, v) \<in> set attrs" and "\<not> skipped k v" and "annotations_is_dict attrs"
  shows "CommandMeta_new classname bases attrs =
           (Inl (NameError ''Parameter''),
            dict_setitem attrs ''__discord_app_commands_params__'' (PyList []))
         \<and> parameter_names (snd (CommandMeta_new classname bases attrs)) = []
         \<and> loop_body ann k' v' st \<noteq> Inr st'"
proof -
  let ?attrs = "dict_setitem attrs ''__discord_app_commands_params__'' (PyList [])"
  let ?init = "\<lparr>arguments = [], descriptions = [], renames = []\<rparr>"
  obtain d where d: "dict_get attrs ''__annotations__'' (PyDict []) = PyDict d"
    using assms(3) by (auto simp: annotations_is_dict_def split: pyval.splits)
  have "(k, v) \<in> set ?attrs"
    using assms(1,2) by (simp add: set_dict_setitem not_skipped_key)
  then have "loop (PyDict d) ?attrs ?init = (Some (NameError ''Parameter''), ?init)"
    using assms(2) by (rule loop_eligible)
  then have "CommandMeta_new classname bases attrs = (Inl (NameError ''Parameter''), ?attrs)"
    by (simp add: CommandMeta_new_def Let_def annotations_after_setitem d dict_setitem_twice)
  then show ?thesis
    by (simp add: parameter_names_empty loop_body_fails)
qed

theorem eligible_attribute_raises_NameError_witness:
  "(''silent'', PyBool True) \<in> set [(''__module__'', PyStr ''__main__''),
                                    (''__qualname__'', PyStr ''Pin''),
                                    (''silent'', PyBool True)]
   \<and> \<not> skipped ''silent'' (PyBool True)
   \<and> annotations_is_dict [(''__module__'', PyStr ''__main__''),
                           (''__qualname__'', PyStr ''Pin''),
                           (''silent'', PyBool True)]
   \<and> CommandMeta_new ''Pin'' [''MessageCommand'']
        [(''__module__'', PyStr ''__main__''),
         (''__qualname__'', PyStr ''Pin''),
         (''silent'', PyBool True)] =
       (Inl (NameError ''Parameter''),
        [(''__module__'', PyStr ''__main__''),
         (''__qualname__'', PyStr ''Pin''),
         (''silent'', PyBool True),
         (''__discord_app_commands_params__'', PyList [])])"
proof -
  let ?attrs = "[(''__module__'', PyStr ''__main__''),
                 (''__qualname__'', PyStr ''Pin''),
                 (''silent'', PyBool True)]"
  have h1: "(''silent'', PyBool True) \<in> set ?attrs" by simp
  have h2: "\<not> skipped ''silent'' (PyBool True)" by (simp add: skipped_def startswith_def)
  have h3: "annotations_is_dict ?attrs" by (simp add: annotations_is_dict_def dict_get_def)
  show ?thesis
    using h1 h2 h3
      eligible_attribute_raises_NameError [OF h1 h2 h3, of "''Pin''" "[''MessageCommand'']"]
    by simp
qed

text \<open>
  C4 does not extend to a class body that binds \<open>__annotations__\<close> to something that is
  not a dictionary: in \<open>class Odd(SlashCommand): __annotations__ = 5; a = 1\<close> the
  attribute \<open>a\<close> is eligible, and reading its annotation raises \<open>AttributeError\<close> before
  the name \<open>Parameter\<close> is looked up, so the exception is not a \<open>NameError\<close>.
\<close>

theorem non_dict_annotations_counterexample:
  "(''a'', PyInt 1) \<in> set [(''__module__'', PyStr ''__main__''),
                           (''__qualname__'', PyStr ''Odd''),
                           (''__annotations__'', PyInt 5),
                           (''a'', PyInt 1)]
   \<and> \<not> skipped ''a'' (PyInt 1)
   \<and> fst (CommandMeta_new ''Odd'' [''SlashCommand'']
             [(''__module__'', PyStr ''__main__''),
              (''__qualname__'', PyStr ''Odd''),
              (''__annotations__'', PyInt 5),
              (''a'', PyInt 1)]) = Inl (AttributeError ''get'')
   \<and> fst (CommandMeta_new ''Odd'' [''SlashCommand'']
             [(''__module__'', PyStr ''__main__''),
              (''__qualname__'', PyStr ''Odd''),
              (''__annotations__'', PyInt 5),
              (''a'', PyInt 1)]) \<noteq> Inl (NameError ''Parameter'')"
  by (simp add: CommandMeta_new_def Let_def dict_get_def skipped_def startswith_def loop_body_def)

text \<open>
  C5. Every eligible attribute of a class body is to appear as a descriptor (name, default,
  annotation, \<open>'str'\<close> when there is no annotation) in the parameter list, in declaration
  order. The code does otherwise:
  \<open>class Echo(SlashCommand): text: str = 'hi'; times: int = 1\<close> raises \<open>NameError\<close>; no
  class is created and the parameter list handed back is empty.
\<close>

theorem declared_attributes_not_listed:
  "CommandMeta_new ''Echo'' [''SlashCommand'']
     [(''__module__'', PyStr ''__main__''),
      (''__qualname__'', PyStr ''Echo''),
      (''__annotations__'', PyDict [(''text'', PyStr ''str''), (''times'', PyStr ''int'')]),
      (''text'', PyStr ''hi''),
      (''times'', PyInt 1)] =
   (Inl (NameError ''Parameter''),
    [(''__module__'', PyStr ''__main__''),
     (''__qualname__'', PyStr ''Echo''),
     (''__annotations__'', PyDict [(''text'', PyStr ''str''), (''times'', PyStr ''int'')]),
     (''text'', PyStr ''hi''),
     (''times'', PyInt 1),
     (''__discord_app_commands_params__'', PyList [])])"
  by (simp add: CommandMeta_new_def Let_def dict_get_def skipped_def startswith_def
      loop_body_dict)

text \<open>
  C6. An attribute that the class body does not assign, in particular one that is declared
  by an annotation only, gets no descriptor: its name is not among the names of the
  parameter list, and the rename and description maps of the resulting namespace hold an
  entry for it only if the class body itself stored one under those keys.
\<close>

theorem annotation_only_attribute_omitted:
  assumes "k \<notin> fst ` set attrs"
  shows "k \<notin> set (parameter_names (snd (CommandMeta_new classname bases attrs)))
         \<and> (k \<in> fst ` set (dict_attr (snd (CommandMeta_new classname bases attrs))
                              ''__discord_app_commands_param_rename__'')
              \<longrightarrow> k \<in> fst ` set (dict_attr attrs ''__discord_app_commands_param_rename__''))
         \<and> (k \<in> fst ` set (dict_attr (snd (CommandMeta_new classname bases attrs))
                              ''__discord_app_commands_param_description__'')
              \<longrightarrow> k \<in> fst ` set (dict_attr attrs ''__discord_app_commands_param_description__''))"
proof -
  let ?ns = "snd (CommandMeta_new classname bases attrs)"
  have ns: "?ns = dict_setitem attrs ''__discord_app_commands_params__'' (PyList [])"
    by (rule CommandMeta_new_namespace)
  have params: "parameter_names ?ns = []"
    unfolding ns by (rule parameter_names_empty)
  have rename: "dict_attr ?ns ''__discord_app_commands_param_rename__'' =
      dict_attr attrs ''__discord_app_commands_param_rename__''"
    unfolding ns by (rule dict_attr_setitem) simp
  have description: "dict_attr ?ns ''__discord_app_commands_param_description__'' =
      dict_attr attrs ''__discord_app_commands_param_description__''"
    unfolding ns by (rule dict_attr_setitem) simp
  show ?thesis
    unfolding params rename description by simp
qed

theorem annotation_only_attribute_omitted_witness:
  "''target'' \<in> fst ` set (dict_attr UserCommand_body ''__annotations__'')
   \<and> ''target'' \<notin> fst ` set UserCommand_body
   \<and> (\<exists>c. fst (CommandMeta_new ''UserCommand'' [''Command'', ''Generic''] UserCommand_body) = Inr c)
   \<and> ''target'' \<notin> set (parameter_names
         (snd (CommandMeta_new ''UserCommand'' [''Command'', ''Generic''] UserCommand_body)))
   \<and> ''target'' \<notin> fst ` set (dict_attr
         (snd (CommandMeta_new ''UserCommand'' [''Command'', ''Generic''] UserCommand_body))
         ''__discord_app_commands_param_rename__'')
   \<and> ''target'' \<notin> fst ` set (dict_attr
         (snd (CommandMeta_new ''UserCommand'' [''Command'', ''Generic''] UserCommand_body))
         ''__discord_app_commands_param_description__'')"
proof -
  have h: "''target'' \<notin> fst ` set UserCommand_body"
    by (simp add: UserCommand_body_def)
  have a: "''target'' \<in> fst ` set (dict_attr UserCommand_body ''__annotations__'')"
    by (simp add: UserCommand_body_def dict_attr_def)
  have r: "dict_attr UserCommand_body ''__discord_app_commands_param_rename__'' = []"
    by (simp add: UserCommand_body_def dict_attr_def)
  have d: "dict_attr UserCommand_body ''__discord_app_commands_param_description__'' = []"
    by (simp add: UserCommand_body_def dict_attr_def)
  show ?thesis
    using h a annotation_only_attribute_omitted [OF h, of "''UserCommand''" "[''Command'', ''Generic'']"]
    by (simp add: r d UserCommand_created)
qed

subsection \<open>\<open>send\<close>\<close>

text \<open>
  C7. When the interaction is expired, \<open>send\<close> is the channel-level send with the ten
  keyword arguments below, \<open>ephemeral\<close> not among them: the value of \<open>ephemeral\<close> has
  no influence on the call.
\<close>

theorem send_expired:
  assumes "is_expired interaction w"
  shows "send interaction a w =
           channel_send interaction
             [(''content'', content a),
              (''tts'', tts a),
              (''embed'', embed a),
              (''embeds'', embeds a),
              (''file'', file a),
              (''files'', files a),
              (''nonce'', nonce a),
              (''allowed_mentions'', allowed_mentions a),
              (''view'', view a),
              (''suppress_embeds'', suppress_embeds a)] w
         \<and> send interaction (a\<lparr>ephemeral := e\<rparr>) w = send interaction a w"
  using assms by (simp add: send_def)

theorem send_expired_witness:
  "is_expired recording_host \<lparr>expired = True, responded = False, calls = []\<rparr>
   \<and> send recording_host (send_defaults\<lparr>content := PyStr ''hi'', ephemeral := PyBool True\<rparr>)
        \<lparr>expired = True, responded = False, calls = []\<rparr> =
       (Inr ''channel message'',
        \<lparr>expired = True, responded = False,
         calls = [Channel_send
                    [(''content'', PyStr ''hi''),
                     (''tts'', PyBool False),
                     (''embed'', PyNone),
                     (''embeds'', PyNone),
                     (''file'', PyNone),
                     (''files'', PyNone),
                     (''nonce'', PyNone),
                     (''allowed_mentions'', PyNone),
                     (''view'', PyNone),
                     (''suppress_embeds'', PyBool False)]]\<rparr>)"
proof -
  let ?w = "\<lparr>expired = True, responded = False, calls = []\<rparr>"
  have h: "is_expired recording_host ?w" by (simp add: recording_host_def)
  show ?thesis
    using h send_expired [OF h, of "send_defaults\<lparr>content := PyStr ''hi'', ephemeral := PyBool True\<rparr>"]
    by (simp add: recording_host_def send_defaults_def)
qed

text \<open>
  C8. When the interaction is not expired and its response is done, \<open>send\<close> is the
  follow-up send, with the converted keyword arguments and \<open>wait=True\<close>.
\<close>

theorem send_responded:
  assumes "\<not> is_expired interaction w" and "response_is_done interaction w"
  shows "send interaction a w =
           followup_send interaction
             [(''content'', content a),
              (''tts'', tts a),
              (''embed'', none_to_missing (embed a)),
              (''embeds'', none_to_missing (embeds a)),
              (''file'', none_to_missing (file a)),
              (''files'', none_to_missing (files a)),
              (''allowed_mentions'', none_to_missing (allowed_mentions a)),
              (''view'', none_to_missing (view a)),
              (''suppress_embeds'', suppress_embeds a),
              (''ephemeral'', ephemeral a),
              (''wait'', PyBool True)] w"
  using assms by (simp add: send_def)

theorem send_responded_witness:
  "\<not> is_expired recording_host \<lparr>expired = False, responded = True, calls = []\<rparr>
   \<and> response_is_done recording_host \<lparr>expired = False, responded = True, calls = []\<rparr>
   \<and> send recording_host (send_defaults\<lparr>content := PyStr ''hi''\<rparr>)
        \<lparr>expired = False, responded = True, calls = []\<rparr> =
       (Inr ''followup message'',
        \<lparr>expired = False, responded = True,
         calls = [Followup_send
                    [(''content'', PyStr ''hi''),
                     (''tts'', PyBool False),
                     (''embed'', MISSING),
                     (''embeds'', MISSING),
                     (''file'', MISSING),
                     (''files'', MISSING),
                     (''allowed_mentions'', MISSING),
                     (''view'', MISSING),
                     (''suppress_embeds'', PyBool False),
                     (''ephemeral'', PyBool False),
                     (''wait'', PyBool True)]]\<rparr>)"
proof -
  let ?w = "\<lparr>expired = False, responded = True, calls = []\<rparr>"
  have h1: "\<not> is_expired recording_host ?w" by (simp add: recording_host_def)
  have h2: "response_is_done recording_host ?w" by (simp add: recording_host_def)
  show ?thesis
    using h1 h2 send_responded [OF h1 h2, of "send_defaults\<lparr>content := PyStr ''hi''\<rparr>"]
    by (simp add: recording_host_def send_defaults_def none_to_missing_def)
qed

text \<open>
  C9. When the interaction is not expired and has not responded, \<open>send\<close> sends the initial
  response with the converted keyword arguments and, when that call returns, fetches and
  returns the original message; an exception of the response call is the outcome of
  \<open>send\<close>.
\<close>

theorem send_not_responded:
  assumes "\<not> is_expired interaction w" and "\<not> response_is_done interaction w"
  shows "send interaction a w =
           (case response_send_message interaction
                   [(''content'', content a),
                    (''tts'', tts a),
                    (''embed'', none_to_missing (embed a)),
                    (''embeds'', none_to_missing (embeds a)),
                    (''file'', none_to_missing (file a)),
                    (''files'', none_to_missing (files a)),
                    (''allowed_mentions'', none_to_missing (allowed_mentions a)),
                    (''view'', none_to_missing (view a)),
                    (''suppress_embeds'', suppress_embeds a),
                    (''ephemeral'', ephemeral a)] w of
              (Inl e, w') \<Rightarrow> (Inl e, w')
            | (Inr u, w') \<Rightarrow> original_message interaction w')"
  using assms by (simp add: send_def)

theorem send_not_responded_witness:
  "\<not> is_expired recording_host \<lparr>expired = False, responded = False, calls = []\<rparr>
   \<and> \<not> response_is_done recording_host \<lparr>expired = False, responded = False, calls = []\<rparr>
   \<and> send recording_host (send_defaults\<lparr>content := PyStr ''hi''\<rparr>)
        \<lparr>expired = False, responded = False, calls = []\<rparr> =
       (Inr ''original message'',
        \<lparr>expired = False, responded = True,
         calls = [Response_send_message
                    [(''content'', PyStr ''hi''),
                     (''tts'', PyBool False),
                     (''embed'', MISSING),
                     (''embeds'', MISSING),
                     (''file'', MISSING),
                     (''files'', MISSING),
                     (''allowed_mentions'', MISSING),
                     (''view'', MISSING),
                     (''suppress_embeds'', PyBool False),
                     (''ephemeral'', PyBool False)],
                  Original_message]\<rparr>)"
proof -
  let ?w = "\<lparr>expired = False, responded = False, calls = []\<rparr>"
  have h1: "\<not> is_expired recording_host ?w" by (simp add: recording_host_def)
  have h2: "\<not> response_is_done recording_host ?w" by (simp add: recording_host_def)
  show ?thesis
    using h1 h2 send_not_responded [OF h1 h2, of "send_defaults\<lparr>content := PyStr ''hi''\<rparr>"]
    by (simp add: recording_host_def send_defaults_def none_to_missing_def)
qed

end
